theory Spec2Isabelle
  imports Main "HOL-Library.Word"
begin

section \<open>The Storage contract\<close>

text \<open>
  The contract of the walkthrough (README, Step 7):
  \<^verbatim>\<open>
  contract Storage {
      uint256 private number;
      function store(uint256 num) public { number = num; }
      function retrieve() public view returns (uint256) { return number; }
  }
  \<close>
  A \<open>uint256\<close> is a 256-bit word. The contract state is its one state variable. Every
  contract function takes the state and returns its result together with the state it
  leaves behind.
\<close>

type_synonym uint256 = "256 word"

record Storage =
  number :: uint256

text \<open>
  The contract declares no constructor and no initialiser for \<open>number\<close>: Solidity
  zero-initialises state variables on creation.
\<close>

definition Storage_new :: Storage where
  "Storage_new = \<lparr>number = 0\<rparr>"

definition store :: "uint256 \<Rightarrow> Storage \<Rightarrow> unit \<times> Storage" where
  "store num s = ((), s\<lparr>number := num\<rparr>)"

definition retrieve :: "Storage \<Rightarrow> uint256 \<times> Storage" where
  "retrieve s = (number s, s)"

text \<open>A client's view of the contract: a sequence of calls, run from a given state.\<close>

datatype operation = Write uint256 | Read

fun apply_operation :: "operation \<Rightarrow> Storage \<Rightarrow> Storage" where
  "apply_operation (Write num) s = snd (store num s)"
| "apply_operation Read s = snd (retrieve s)"

fun run_operations :: "operation list \<Rightarrow> Storage \<Rightarrow> Storage" where
  "run_operations [] s = s"
| "run_operations (x # xs) s = run_operations xs (apply_operation x s)"

section \<open>The host ledger\<close>

text \<open>
  The deployment script talks to the ledger through the Hardhat and ethers libraries.
  Neither they nor the chain are part of the repository, so the host is modelled from
  the specification's external interfaces: an instantiation call, a write call that
  returns a pending-confirmation handle, a blocking wait, and a read call; each can fail
  with an error of the specification's taxonomy.
\<close>

type_synonym address = nat

datatype error = Transport | Authorization | NotFound | Validation

text \<open>The pending-confirmation handle of a write: the contract and the value sent.\<close>

datatype tx = StoreTx address uint256

text \<open>What \<open>console.log\<close> is given: string literals, an address, a retrieved value.\<close>

datatype arg = Str string | Addr address | Num uint256

datatype call =
    GetContractFactory string
  | Deploy
  | Deployed address
  | Retrieve address
  | Store address uint256
  | Wait tx

datatype event = HostCall call | ConsoleLog "arg list" | ConsoleError error

text \<open>
  The world the script runs in: the contracts on the ledger, the address the next
  deployment gets, the host failures to come (the \<open>n\<close>-th host call of the run fails
  with \<open>e\<close> when \<open>faults n = Some e\<close>), the number of host calls made so far, everything
  that has been observed in order, and \<open>process.exitCode\<close> (\<open>None\<close> while undefined).
\<close>

record world =
  ledger :: "address \<rightharpoonup> Storage"
  next_address :: address
  faults :: "nat \<Rightarrow> error option"
  clock :: nat
  trace :: "event list"
  exitCode :: "nat option"

type_synonym 'a io = "world \<Rightarrow> (error + 'a) \<times> world"

text \<open>
  Sequencing of awaited steps: a step that throws ends the sequence with its error; the
  world keeps what has happened up to there.
\<close>

definition bind_io :: "'a io \<Rightarrow> ('a \<Rightarrow> 'b io) \<Rightarrow> 'b io" where
  "bind_io m f w = (case m w of (Inl e, w') \<Rightarrow> (Inl e, w') | (Inr x, w') \<Rightarrow> f x w')"

text \<open>
  Modelled from the spec: every call into the host (the absent Hardhat/ethers libraries
  and the ledger behind them) is recorded, and fails with the host's error when the host
  fails at that point.
\<close>

definition host_call :: "call \<Rightarrow> 'a io \<Rightarrow> 'a io" where
  "host_call c body w =
     (let w1 = w\<lparr>clock := Suc (clock w), trace := trace w @ [HostCall c]\<rparr>
      in case faults w (clock w) of
           Some e \<Rightarrow> (Inl e, w1)
         | None \<Rightarrow> body w1)"

text \<open>
  Modelled from the spec: \<open>hre.ethers.getContractFactory\<close>, absent from the sources.
  The project compiles one contract, \<open>Storage\<close>; the factory handle is its name.
\<close>

definition getContractFactory :: "string \<Rightarrow> string io" where
  "getContractFactory name =
     host_call (GetContractFactory name)
       (\<lambda>w. if name = ''Storage'' then (Inr name, w) else (Inl NotFound, w))"

text \<open>
  Modelled from the spec: the host instantiation call (\<open>Storage.deploy()\<close>), absent from
  the sources. It takes no arguments and returns a handle to the new instance with its
  address; the instance exists once \<open>deployed\<close> has acknowledged it.
\<close>

definition deploy :: "string \<Rightarrow> address io" where
  "deploy factory =
     host_call Deploy
       (\<lambda>w. (Inr (next_address w), w\<lparr>next_address := Suc (next_address w)\<rparr>))"

text \<open>
  Modelled from the spec: the acknowledgement of the instantiation
  (\<open>storage.deployed()\<close>), absent from the sources. The value of a new instance is
  implicitly initialised to zero.
\<close>

definition deployed :: "address \<Rightarrow> unit io" where
  "deployed a =
     host_call (Deployed a)
       (\<lambda>w. case ledger w a of
               None \<Rightarrow> (Inr (), w\<lparr>ledger := (ledger w)(a \<mapsto> Storage_new)\<rparr>)
             | Some c \<Rightarrow> (Inr (), w))"

text \<open>
  Modelled from the spec: the read call of the counter resource, absent from the
  sources. It returns the current value with no side effects; it always succeeds if the
  resource exists and fails with a not-found error if the resource was never
  instantiated.
\<close>

definition read :: "(address \<rightharpoonup> Storage) \<Rightarrow> address \<Rightarrow> error + uint256" where
  "read l a = (case l a of None \<Rightarrow> Inl NotFound | Some c \<Rightarrow> Inr (fst (retrieve c)))"

text \<open>
  Modelled from the spec: \<open>storage.retrieve()\<close> of the absent ethers contract handle, the
  read call issued through the host.
\<close>

definition call_retrieve :: "address \<Rightarrow> uint256 io" where
  "call_retrieve a = host_call (Retrieve a) (\<lambda>w. (read (ledger w) a, w))"

text \<open>
  Modelled from the spec: the write call (\<open>storage.store(num)\<close> of the absent ethers
  contract handle). It takes one argument and returns a pending-confirmation handle.
\<close>

definition send_store :: "address \<Rightarrow> uint256 \<Rightarrow> tx io" where
  "send_store a num = host_call (Store a num) (\<lambda>w. (Inr (StoreTx a num), w))"

text \<open>
  Modelled from the spec: the blocking wait on a pending write (\<open>tx.wait()\<close>), absent from
  the sources. It yields durable confirmation, after which the write is reflected in
  subsequent reads, or failure.
\<close>

fun tx_wait :: "tx \<Rightarrow> unit io" where
  "tx_wait (StoreTx a num) =
     host_call (Wait (StoreTx a num))
       (\<lambda>w. case ledger w a of
               None \<Rightarrow> (Inl NotFound, w)
             | Some c \<Rightarrow> (Inr (), w\<lparr>ledger := (ledger w)(a \<mapsto> snd (store num c))\<rparr>))"

text \<open>
  Node's \<open>console.log\<close> and \<open>console.error\<close> write a line to the operator's standard
  output and standard error; they do not fail.
\<close>

definition console_log :: "arg list \<Rightarrow> unit io" where
  "console_log args w = (Inr (), w\<lparr>trace := trace w @ [ConsoleLog args]\<rparr>)"

definition console_error :: "error \<Rightarrow> unit io" where
  "console_error e w = (Inr (), w\<lparr>trace := trace w @ [ConsoleError e]\<rparr>)"

section \<open>The deployment script\<close>

text \<open>
  \<open>scripts/deploy.js\<close>:
  \<^verbatim>\<open>
  async function main() {
    const Storage = await hre.ethers.getContractFactory("Storage");
    const storage = await Storage.deploy();
    await storage.deployed();
    console.log("Storage contract deployed to:", storage.address);
    console.log("Retrieve value:", await storage.retrieve());
    console.log("Store value 100 in the contract...");
    const tx = await storage.store(50);
    await tx.wait();
    console.log("Retrieve value after storing:", await storage.retrieve());
  }
  \<close>
\<close>

definition main :: "unit io" where
  "main =
     bind_io (getContractFactory ''Storage'') (\<lambda>Storage.
     bind_io (deploy Storage) (\<lambda>storage.
     bind_io (deployed storage) (\<lambda>_.
     bind_io (console_log [Str ''Storage contract deployed to:'', Addr storage]) (\<lambda>_.
     bind_io (call_retrieve storage) (\<lambda>v.
     bind_io (console_log [Str ''Retrieve value:'', Num v]) (\<lambda>_.
     bind_io (console_log [Str ''Store value 100 in the contract...'']) (\<lambda>_.
     bind_io (send_store storage 50) (\<lambda>tx.
     bind_io (tx_wait tx) (\<lambda>_.
     bind_io (call_retrieve storage) (\<lambda>v'.
     console_log [Str ''Retrieve value after storing:'', Num v']))))))))))"

text \<open>
  The script's last statement:
  \<^verbatim>\<open>
  main().catch((error) => {
    console.error(error);
    process.exitCode = 1;
  });
  \<close>
\<close>

definition on_rejected :: "error \<Rightarrow> world \<Rightarrow> world" where
  "on_rejected err w = (snd (console_error err w))\<lparr>exitCode := Some 1\<rparr>"

definition script :: "world \<Rightarrow> world" where
  "script w =
     (case main w of
        (Inr _, w') \<Rightarrow> w'
      | (Inl err, w') \<Rightarrow> on_rejected err w')"

text \<open>A process that ends with \<open>process.exitCode\<close> undefined exits with status 0.\<close>

definition exit_status :: "world \<Rightarrow> nat" where
  "exit_status w = (case exitCode w of None \<Rightarrow> 0 | Some n \<Rightarrow> n)"

text \<open>The world at the start of a run: an empty ledger, nothing observed yet.\<close>

definition boot :: "(nat \<Rightarrow> error option) \<Rightarrow> world" where
  "boot f =
     \<lparr>ledger = Map.empty, next_address = 0, faults = f, clock = 0, trace = [],
      exitCode = None\<rparr>"

definition run :: "(nat \<Rightarrow> error option) \<Rightarrow> world" where
  "run f = script (boot f)"

text \<open>The copy of the script in the README walkthrough (Step 9): it stores 100.\<close>

definition main_README :: "unit io" where
  "main_README =
     bind_io (getContractFactory ''Storage'') (\<lambda>Storage.
     bind_io (deploy Storage) (\<lambda>storage.
     bind_io (deployed storage) (\<lambda>_.
     bind_io (console_log [Str ''Storage contract deployed to:'', Addr storage]) (\<lambda>_.
     bind_io (call_retrieve storage) (\<lambda>v.
     bind_io (console_log [Str ''Retrieve value:'', Num v]) (\<lambda>_.
     bind_io (console_log [Str ''Store value 100 in the contract...'']) (\<lambda>_.
     bind_io (send_store storage 100) (\<lambda>tx.
     bind_io (tx_wait tx) (\<lambda>_.
     bind_io (call_retrieve storage) (\<lambda>v'.
     console_log [Str ''Retrieve value after storing:'', Num v']))))))))))"

definition script_README :: "world \<Rightarrow> world" where
  "script_README w =
     (case main_README w of
        (Inr _, w') \<Rightarrow> w'
      | (Inl err, w') \<Rightarrow> on_rejected err w')"

text \<open>
  The driver as the specification describes it: the same sequence, with the value of
  the write step as a parameter.
\<close>

definition driver_spec :: "uint256 \<Rightarrow> unit io" where
  "driver_spec literal =
     bind_io (getContractFactory ''Storage'') (\<lambda>factory.
     bind_io (deploy factory) (\<lambda>counter.
     bind_io (deployed counter) (\<lambda>_.
     bind_io (console_log [Str ''Storage contract deployed to:'', Addr counter]) (\<lambda>_.
     bind_io (call_retrieve counter) (\<lambda>initial.
     bind_io (console_log [Str ''Retrieve value:'', Num initial]) (\<lambda>_.
     bind_io (console_log [Str ''Store value 100 in the contract...'']) (\<lambda>_.
     bind_io (send_store counter literal) (\<lambda>pending.
     bind_io (tx_wait pending) (\<lambda>_.
     bind_io (call_retrieve counter) (\<lambda>final.
     console_log [Str ''Retrieve value after storing:'', Num final]))))))))))"

definition script_spec :: "uint256 \<Rightarrow> world \<Rightarrow> world" where
  "script_spec literal w =
     (case driver_spec literal w of
        (Inr _, w') \<Rightarrow> w'
      | (Inl err, w') \<Rightarrow> on_rejected err w')"

text \<open>What a run in which no step fails shows, in order: host calls and console lines.\<close>

definition driver_trace :: "uint256 \<Rightarrow> event list" where
  "driver_trace literal =
     [HostCall (GetContractFactory ''Storage''),
      HostCall Deploy,
      HostCall (Deployed 0),
      ConsoleLog [Str ''Storage contract deployed to:'', Addr 0],
      HostCall (Retrieve 0),
      ConsoleLog [Str ''Retrieve value:'', Num 0],
      ConsoleLog [Str ''Store value 100 in the contract...''],
      HostCall (Store 0 literal),
      HostCall (Wait (StoreTx 0 literal)),
      HostCall (Retrieve 0),
      ConsoleLog [Str ''Retrieve value after storing:'', Num literal]]"

text \<open>The values of the write calls in a trace.\<close>

fun writes :: "event list \<Rightarrow> uint256 list" where
  "writes [] = []"
| "writes (HostCall (Store a num) # es) = num # writes es"
| "writes (ev # es) = writes es"

text \<open>The part of a trace up to and including its \<open>k\<close>-th host call, counted from 0.\<close>

fun through_call :: "nat \<Rightarrow> event list \<Rightarrow> event list" where
  "through_call k [] = []"
| "through_call k (HostCall c # es) =
     HostCall c # (case k of 0 \<Rightarrow> [] | Suc k' \<Rightarrow> through_call k' es)"
| "through_call k (ConsoleLog args # es) = ConsoleLog args # through_call k es"
| "through_call k (ConsoleError e # es) = ConsoleError e # through_call k es"

section \<open>Properties of the contract\<close>

lemma uint256_of_int_inverse:
  "0 \<le> v \<Longrightarrow> v < 2 ^ 256 \<Longrightarrow> uint (word_of_int v :: uint256) = v"
  by (simp add: uint_word_of_int take_bit_int_eq_self)

text \<open>
  C1. For every integer \<open>v\<close> with \<open>0 \<le> v < 2 ^ 256\<close>, storing \<open>v\<close> and then retrieving
  returns \<open>v\<close>, from any state of the contract.
\<close>

theorem store_retrieve:
  "0 \<le> v \<Longrightarrow> v < 2 ^ 256 \<Longrightarrow>
     uint (fst (retrieve (snd (store (word_of_int v) s)))) = v"
  by (simp add: store_def retrieve_def uint256_of_int_inverse)

theorem store_retrieve_witness:
  "(0::int) \<le> 50 \<and> (50::int) < 2 ^ 256 \<and>
     uint (fst (retrieve (snd (store (word_of_int 50) Storage_new)))) = 50"
  using store_retrieve [of 50 Storage_new] by simp

text \<open>
  C3. Retrieving from a freshly created contract, before any store, returns 0.
\<close>

theorem retrieve_fresh: "fst (retrieve Storage_new) = 0"
  by (simp add: retrieve_def Storage_new_def)

text \<open>
  C4. For all in-range \<open>v1\<close> and \<open>v2\<close>: after storing \<open>v1\<close> and then \<open>v2\<close>, retrieving
  returns \<open>v2\<close>; the state keeps nothing of \<open>v1\<close>, it is the state that storing \<open>v2\<close>
  alone leaves.
\<close>

theorem store_store:
  "0 \<le> v1 \<Longrightarrow> v1 < 2 ^ 256 \<Longrightarrow> 0 \<le> v2 \<Longrightarrow> v2 < 2 ^ 256 \<Longrightarrow>
     uint (fst (retrieve (snd (store (word_of_int v2) (snd (store (word_of_int v1) s)))))) = v2
     \<and> snd (store (word_of_int v2) (snd (store (word_of_int v1) s)))
         = snd (store (word_of_int v2) s)"
  by (simp add: store_def retrieve_def uint256_of_int_inverse)

theorem store_store_witness:
  "(0::int) \<le> 50 \<and> (50::int) < 2 ^ 256 \<and> (0::int) \<le> 100 \<and> (100::int) < 2 ^ 256
     \<and> uint (fst (retrieve (snd (store (word_of_int 100)
          (snd (store (word_of_int 50) Storage_new)))))) = 100
     \<and> snd (store (word_of_int 100) (snd (store (word_of_int 50) Storage_new)))
         = snd (store (word_of_int 100) Storage_new)"
  using store_store [of 50 100 Storage_new] by auto

text \<open>
  C5. Retrieving never changes the state: the state after a retrieve is the state before
  it, and a second retrieve with no store in between returns the same value. A read
  issued through the host leaves every contract on the ledger as it was, whether it
  succeeds or fails.
\<close>

theorem retrieve_pure:
  "snd (retrieve s) = s
     \<and> fst (retrieve (snd (retrieve s))) = fst (retrieve s)
     \<and> ledger (snd (call_retrieve a w)) = ledger w"
  by (simp add: retrieve_def call_retrieve_def host_call_def Let_def split: option.split)

text \<open>
  C8. The stored value is a non-negative integer below \<open>2 ^ 256\<close> in the fresh contract
  and after every sequence of stores and retrieves.
\<close>

theorem number_bounded:
  "0 \<le> uint (number (run_operations ops Storage_new))
     \<and> uint (number (run_operations ops Storage_new)) < 2 ^ 256"
proof -
  have "uint (number (run_operations ops Storage_new)) < 2 ^ LENGTH(256)"
    by (rule uint_bounded)
  then show ?thesis by simp
qed

text \<open>
  C10. Storing zero cannot be told from never having stored: from every state, the state
  after storing 0 is the state of a fresh contract, and retrieving returns 0 in both.
\<close>

theorem store_zero_fresh:
  "snd (store 0 s) = Storage_new
     \<and> fst (retrieve (snd (store 0 s))) = 0
     \<and> fst (retrieve (snd (store 0 s))) = fst (retrieve Storage_new)"
  by (simp add: store_def retrieve_def Storage_new_def)

section \<open>Properties of the deployment script\<close>

lemmas host_defs = bind_io_def host_call_def getContractFactory_def deploy_def deployed_def
  read_def call_retrieve_def send_store_def console_log_def console_error_def retrieve_def
  store_def Storage_new_def

lemma main_boot_ok:
  assumes "f 0 = None" "f (Suc 0) = None" "f (Suc (Suc 0)) = None" "f (Suc (Suc (Suc 0))) = None"
   "f (Suc (Suc (Suc (Suc 0)))) = None" "f (Suc (Suc (Suc (Suc (Suc 0))))) = None"
   "f (Suc (Suc (Suc (Suc (Suc (Suc 0)))))) = None"
  shows "main (boot f) = (Inr (), \<lparr>ledger = [0 \<mapsto> \<lparr>number = 50\<rparr>], next_address = 1, faults = f,
     clock = 7, trace = driver_trace 50, exitCode = None\<rparr>)"
  using assms by (simp add: main_def boot_def host_defs driver_trace_def)

lemma no_faults_Suc:
  assumes "\<forall>n<7. f n = None"
  shows "f 0 = None" "f (Suc 0) = None" "f (Suc (Suc 0)) = None" "f (Suc (Suc (Suc 0))) = None"
   "f (Suc (Suc (Suc (Suc 0)))) = None" "f (Suc (Suc (Suc (Suc (Suc 0))))) = None"
   "f (Suc (Suc (Suc (Suc (Suc (Suc 0)))))) = None"
  using assms by simp_all

lemma main_no_faults:
  assumes "\<forall>n<7. f n = None"
  shows "main (boot f) = (Inr (), \<lparr>ledger = [0 \<mapsto> \<lparr>number = 50\<rparr>], next_address = 1, faults = f,
     clock = 7, trace = driver_trace 50, exitCode = None\<rparr>)"
  by (rule main_boot_ok) (rule no_faults_Suc [OF assms])+

lemma writes_driver_trace: "writes (driver_trace v) = [v]"
  by (simp add: driver_trace_def)

text \<open>
  C2. In a run in which no host call fails, the script instantiates the contract, waits
  for the instantiation, reads the value, issues one write, of the literal 50, waits for
  its confirmation and reads again, in this order; the value reported by the last read
  is the value written, and it is the value on the ledger.
\<close>

theorem main_sequence:
  "\<forall>n<7. f n = None \<Longrightarrow>
     fst (main (boot f)) = Inr ()
     \<and> trace (snd (main (boot f))) = driver_trace 50
     \<and> writes (trace (snd (main (boot f)))) = [50]
     \<and> last (trace (snd (main (boot f)))) = ConsoleLog [Str ''Retrieve value after storing:'', Num 50]
     \<and> read (ledger (snd (main (boot f)))) 0 = Inr 50"
  by (simp add: main_no_faults writes_driver_trace) (simp add: driver_trace_def read_def retrieve_def)

theorem main_sequence_witness:
  "fst (main (boot (\<lambda>_. None))) = Inr ()
     \<and> trace (snd (main (boot (\<lambda>_. None)))) = driver_trace 50
     \<and> writes (trace (snd (main (boot (\<lambda>_. None))))) = [50]
     \<and> last (trace (snd (main (boot (\<lambda>_. None))))) = ConsoleLog [Str ''Retrieve value after storing:'', Num 50]
     \<and> read (ledger (snd (main (boot (\<lambda>_. None))))) 0 = Inr 50"
  using main_sequence [of "\<lambda>_. None"] by auto

lemma fail0: assumes "f 0 = Some e"
  shows "trace (run f) = through_call 0 (driver_trace 50) @ [ConsoleError e] \<and> exit_status (run f) = 1"
  using assms by (simp add: run_def script_def on_rejected_def exit_status_def main_def boot_def host_defs driver_trace_def)

lemma fail1: assumes "f 0 = None" "f (Suc 0) = Some e"
  shows "trace (run f) = through_call 1 (driver_trace 50) @ [ConsoleError e] \<and> exit_status (run f) = 1"
  using assms by (simp add: run_def script_def on_rejected_def exit_status_def main_def boot_def host_defs driver_trace_def)

lemma fail2: assumes "f 0 = None" "f (Suc 0) = None" "f (Suc (Suc 0)) = Some e"
  shows "trace (run f) = through_call 2 (driver_trace 50) @ [ConsoleError e] \<and> exit_status (run f) = 1"
  using assms by (simp add: run_def script_def on_rejected_def exit_status_def main_def boot_def host_defs driver_trace_def numeral_2_eq_2)

lemma fail3: assumes "f 0 = None" "f (Suc 0) = None" "f (Suc (Suc 0)) = None" "f (Suc (Suc (Suc 0))) = Some e"
  shows "trace (run f) = through_call 3 (driver_trace 50) @ [ConsoleError e] \<and> exit_status (run f) = 1"
  using assms by (simp add: run_def script_def on_rejected_def exit_status_def main_def boot_def host_defs driver_trace_def numeral_3_eq_3)

lemma fail4: assumes "f 0 = None" "f (Suc 0) = None" "f (Suc (Suc 0)) = None" "f (Suc (Suc (Suc 0))) = None"
    "f (Suc (Suc (Suc (Suc 0)))) = Some e"
  shows "trace (run f) = through_call 4 (driver_trace 50) @ [ConsoleError e] \<and> exit_status (run f) = 1"
  using assms by (simp add: run_def script_def on_rejected_def exit_status_def main_def boot_def host_defs driver_trace_def eval_nat_numeral)

lemma fail5: assumes "f 0 = None" "f (Suc 0) = None" "f (Suc (Suc 0)) = None" "f (Suc (Suc (Suc 0))) = None"
    "f (Suc (Suc (Suc (Suc 0)))) = None" "f (Suc (Suc (Suc (Suc (Suc 0))))) = Some e"
  shows "trace (run f) = through_call 5 (driver_trace 50) @ [ConsoleError e] \<and> exit_status (run f) = 1"
  using assms by (simp add: run_def script_def on_rejected_def exit_status_def main_def boot_def host_defs driver_trace_def eval_nat_numeral)

lemma fail6: assumes "f 0 = None" "f (Suc 0) = None" "f (Suc (Suc 0)) = None" "f (Suc (Suc (Suc 0))) = None"
    "f (Suc (Suc (Suc (Suc 0)))) = None" "f (Suc (Suc (Suc (Suc (Suc 0))))) = None"
    "f (Suc (Suc (Suc (Suc (Suc (Suc 0)))))) = Some e"
  shows "trace (run f) = through_call 6 (driver_trace 50) @ [ConsoleError e] \<and> exit_status (run f) = 1"
  using assms by (simp add: run_def script_def on_rejected_def exit_status_def main_def boot_def host_defs driver_trace_def eval_nat_numeral)

lemma script_fails:
  assumes k: "k < 7" and before: "\<forall>j<k. f j = None" and at: "f k = Some e"
  shows "trace (run f) = through_call k (driver_trace 50) @ [ConsoleError e] \<and> exit_status (run f) = 1"
proof -
  from k consider "k = 0" | "k = 1" | "k = 2" | "k = 3" | "k = 4" | "k = 5" | "k = 6"
    by linarith
  then show ?thesis
  proof cases
    case 1
    with at show ?thesis by (simp add: fail0)
  next
    case 2
    with before at show ?thesis by (simp add: fail1)
  next
    case 3
    with before at show ?thesis by (simp add: fail2 numeral_2_eq_2)
  next
    case 4
    with before at show ?thesis by (simp add: fail3 numeral_3_eq_3)
  next
    case 5
    with before at show ?thesis by (simp add: fail4 eval_nat_numeral)
  next
    case 6
    with before at show ?thesis by (simp add: fail5 eval_nat_numeral)
  next
    case 7
    with before at show ?thesis by (simp add: fail6 eval_nat_numeral)
  qed
qed

lemma script_ok:
  assumes "\<forall>n<7. f n = None"
  shows "trace (run f) = driver_trace 50 \<and> exitCode (run f) = None \<and> exit_status (run f) = 0"
  by (simp add: run_def script_def exit_status_def main_no_faults [OF assms])


text \<open>
  C6. When no host call of the run fails, nothing is written to the error channel and the
  process exits with status 0. When the \<open>k\<close>-th host call is the first to fail, with
  error \<open>e\<close>, the run shows the steps up to and including that call and none of the
  later ones, then \<open>e\<close> on the error channel, and the process exits with status 1.
\<close>

theorem script_failure_semantics:
  "((\<forall>n<7. f n = None) \<longrightarrow>
      trace (run f) = driver_trace 50 \<and> exitCode (run f) = None \<and> exit_status (run f) = 0)
   \<and> (k < 7 \<and> (\<forall>j<k. f j = None) \<and> f k = Some e \<longrightarrow>
      trace (run f) = through_call k (driver_trace 50) @ [ConsoleError e]
      \<and> exit_status (run f) = 1)"
  using script_ok [of f] script_fails [of k f e] by blast

theorem script_failure_semantics_witness:
  "trace (run (\<lambda>_. None)) = driver_trace 50
   \<and> exitCode (run (\<lambda>_. None)) = None
   \<and> exit_status (run (\<lambda>_. None)) = 0
   \<and> (4::nat) < 7
   \<and> ((\<lambda>_::nat. None)(4 := Some Transport)) (4::nat) = Some Transport
   \<and> trace (run ((\<lambda>_::nat. None)(4 := Some Transport)))
       = [HostCall (GetContractFactory ''Storage''), HostCall Deploy, HostCall (Deployed 0),
          ConsoleLog [Str ''Storage contract deployed to:'', Addr 0],
          HostCall (Retrieve 0),
          ConsoleLog [Str ''Retrieve value:'', Num 0],
          ConsoleLog [Str ''Store value 100 in the contract...''],
          HostCall (Store 0 50),
          ConsoleError Transport]
   \<and> exit_status (run ((\<lambda>_::nat. None)(4 := Some Transport))) = 1"
proof -
  have ok: "\<forall>n<7. (\<lambda>_. None :: error option) n = None" by simp
  have bad: "(4::nat) < 7 \<and> (\<forall>j<4. ((\<lambda>_::nat. None)(4 := Some Transport)) j = None)
     \<and> ((\<lambda>_::nat. None)(4 := Some Transport)) (4::nat) = Some Transport" by simp
  have cut: "through_call 4 (driver_trace 50) @ [ConsoleError Transport]
       = [HostCall (GetContractFactory ''Storage''), HostCall Deploy, HostCall (Deployed 0),
          ConsoleLog [Str ''Storage contract deployed to:'', Addr 0],
          HostCall (Retrieve 0),
          ConsoleLog [Str ''Retrieve value:'', Num 0],
          ConsoleLog [Str ''Store value 100 in the contract...''],
          HostCall (Store 0 50),
          ConsoleError Transport]"
    by (simp add: driver_trace_def eval_nat_numeral)
  from ok bad cut
    script_failure_semantics [of "\<lambda>_. None" 0 Transport]
    script_failure_semantics [of "(\<lambda>_::nat. None)(4 := Some Transport)" 4 Transport]
  show ?thesis by metis
qed

text \<open>
  C7. A read of a contract that was never instantiated fails with the not-found error:
  it does not return 0, and issued through the host it never succeeds; when the host
  itself does not fail at that call, the error is not-found.
\<close>

theorem read_not_instantiated:
  "ledger w a = None \<Longrightarrow>
     read (ledger w) a = Inl NotFound
     \<and> read (ledger w) a \<noteq> Inr 0
     \<and> (\<forall>v. fst (call_retrieve a w) \<noteq> Inr v)
     \<and> (faults w (clock w) = None \<longrightarrow> fst (call_retrieve a w) = Inl NotFound)"
  by (auto simp add: read_def call_retrieve_def host_call_def Let_def split: option.splits)

theorem read_not_instantiated_witness:
  "ledger (boot (\<lambda>_. None)) 0 = None
     \<and> read (ledger (boot (\<lambda>_. None))) 0 = Inl NotFound
     \<and> read (ledger (boot (\<lambda>_. None))) 0 \<noteq> Inr 0
     \<and> (\<forall>v. fst (call_retrieve 0 (boot (\<lambda>_. None))) \<noteq> Inr v)
     \<and> faults (boot (\<lambda>_. None)) (clock (boot (\<lambda>_. None))) = None
     \<and> fst (call_retrieve 0 (boot (\<lambda>_. None))) = Inl NotFound"
  using read_not_instantiated [of "boot (\<lambda>_. None)" 0] by (simp add: boot_def)

lemma main_differs: "main \<noteq> main_README"
proof
  assume "main = main_README"
  then have "trace (snd (main (boot (\<lambda>_. None)))) = trace (snd (main_README (boot (\<lambda>_. None))))"
    by simp
  then show False
    by (simp add: main_def main_README_def boot_def host_defs)
qed

text \<open>
  C9. The script and its copy in the README are the parameterised driver at 50 and at
  100, with the same handler for a rejected run; they differ, and only in that literal.
\<close>

theorem drivers_equal_up_to_literal:
  "main = driver_spec 50 \<and> main_README = driver_spec 100
     \<and> script = script_spec 50 \<and> script_README = script_spec 100
     \<and> main \<noteq> main_README"
proof -
  have m: "main = driver_spec 50" by (simp add: main_def driver_spec_def)
  have r: "main_README = driver_spec 100" by (simp add: main_README_def driver_spec_def)
  have "script = script_spec 50" by (rule ext) (simp add: script_def script_spec_def m)
  moreover have "script_README = script_spec 100"
    by (rule ext) (simp add: script_README_def script_spec_def r)
  ultimately show ?thesis using m r main_differs by simp
qed


end
